theory Spec2Isabelle
  imports Main "HOL-Library.Word" "HOL-Library.AList" "HOL-Library.Multiset"
begin

section \<open>Data model\<close>

text \<open>
  The embedding follows the plugin variant with per-destination allow-lists and concurrent
  error aggregation (the file defining \<^verbatim>\<open>sendMessage\<close>,
  \<^verbatim>\<open>processWebhookBody\<close>, \<^verbatim>\<open>processJSONRecursive\<close> and
  \<^verbatim>\<open>processTemplateString\<close>).

  Go's \<^verbatim>\<open>uint\<close> and \<^verbatim>\<open>int\<close> are 64-bit machine integers.
  Of \<^verbatim>\<open>MessageExternal\<close> the fields \<^verbatim>\<open>Extras\<close> and
  \<^verbatim>\<open>Date\<close> are left out: no function modelled here reads them.
\<close>

type_synonym uint = "64 word"

record MessageExternal =
  ID :: uint
  ApplicationID :: uint
  Message :: string
  Title :: string
  Priority :: "64 word"

text \<open>
  A \<^verbatim>\<open>WebHook\<close>. \<^verbatim>\<open>Header\<close> is a Go map, which may be
  \<^verbatim>\<open>nil\<close>: \<open>None\<close> is the nil map, \<open>Some h\<close> an allocated one.
  A nil and an empty \<^verbatim>\<open>Apps\<close> slice both have length 0 and are the empty list.
\<close>

record WebHook =
  Url :: string
  Method :: string
  Body :: string
  Header :: "(string \<rightharpoonup> string) option"
  Apps :: "uint list"

record Config =
  ClientToken :: string
  HostServer :: string
  WebHooks :: "WebHook list"

text \<open>
  The values \<^verbatim>\<open>json.Unmarshal\<close> stores in an \<^verbatim>\<open>interface{}\<close>:
  nil, bool, float64, string, \<^verbatim>\<open>[]interface{}\<close> and
  \<^verbatim>\<open>map[string]interface{}\<close>. Numbers are opaque to the plugin, so their type is a
  parameter. A Go map has distinct keys and no iteration order; here a map is the list of its
  entries in the order in which \<^verbatim>\<open>range\<close> happens to visit them, and every theorem
  below holds for every such list, hence for every iteration order.
\<close>

datatype 'n json =
    JNull
  | JBool bool
  | JNumber 'n
  | JString string
  | JArray "'n json list"
  | JObject "(string \<times> 'n json) list"

text \<open>The error of a cancelled or expired \<^verbatim>\<open>context.Context\<close>.\<close>

datatype ctx_error = Canceled | DeadlineExceeded

text \<open>
  One constructor for each error the plugin builds; the \<^verbatim>\<open>%w\<close>-wrapped cause is
  an argument, the destination's URL of a tagged error another.
\<close>

datatype error =
    ContextError ctx_error
  | FailedToParseTemplate string
  | FailedToExecuteTemplate string
  | FailedToProcessJSONBody error
  | FailedToMarshalBody string
  | FailedToProcessWebhookBody string error
  | FailedToCreateRequest string
  | FailedToSendRequest string
  | UnexpectedStatusCode int
  | FailedToSendWebhookRequest string error
  | InvalidWebhookURL string

section \<open>The environment: standard library and network\<close>

text \<open>
  The plugin calls Go's standard library (\<^verbatim>\<open>text/template\<close>,
  \<^verbatim>\<open>encoding/json\<close>, \<^verbatim>\<open>net/url\<close>, \<^verbatim>\<open>net/http\<close>),
  which is not part of the repository. These calls are the fields of an environment that every
  function of the plugin takes as its first argument; the general theorems hold for every
  environment. Library errors are their messages.

  \<^item> \<open>template_Parse\<close>: \<^verbatim>\<open>template.New("").Parse(s)\<close>;
  \<^item> \<open>template_Execute\<close>: \<^verbatim>\<open>tmpl.Execute(&buf, data)\<close>, returning the buffer;
  \<^item> \<open>json_Unmarshal\<close>: decoding a text into an \<^verbatim>\<open>interface{}\<close>,
    \<open>None\<close> on a syntax error;
  \<^item> \<open>json_Marshal\<close>: \<^verbatim>\<open>json.Marshal\<close>;
  \<^item> \<open>url_Parse\<close>: \<^verbatim>\<open>url.Parse\<close>, of whose result the plugin reads
    \<^verbatim>\<open>Scheme\<close> and \<^verbatim>\<open>Host\<close>;
  \<^item> \<open>http_NewRequest\<close>: the check \<^verbatim>\<open>http.NewRequestWithContext\<close>
    makes of method and URL, \<open>Some e\<close> when it refuses them;
  \<^item> \<open>client_Do\<close>: \<^verbatim>\<open>http.DefaultClient.Do\<close>, a transport error or
    the status code of the response.
\<close>

record URL =
  Scheme :: string
  Host :: string

record Request =
  req_ctx :: "ctx_error option"
  req_method :: string
  req_url :: string
  req_header :: "(string \<rightharpoonup> string) option"
  req_body :: string

record ('t, 'n) env =
  template_Parse :: "string \<Rightarrow> string + 't"
  template_Execute :: "'t \<Rightarrow> (string \<rightharpoonup> string) \<Rightarrow> string + string"
  json_Unmarshal :: "string \<Rightarrow> 'n json option"
  json_Marshal :: "'n json \<Rightarrow> string + string"
  url_Parse :: "string \<Rightarrow> string + URL"
  http_NewRequest :: "string \<Rightarrow> string \<Rightarrow> string option"
  client_Do :: "Request \<Rightarrow> string + int"

section \<open>Template Renderer\<close>

text \<open>
  \<^verbatim>\<open>processTemplateString\<close>: parse, then execute against the map with the keys
  \<^verbatim>\<open>title\<close> and \<^verbatim>\<open>message\<close>.
\<close>

definition processTemplateString ::
  "('t, 'n) env \<Rightarrow> string \<Rightarrow> MessageExternal \<Rightarrow> error + string" where
  "processTemplateString E s msg =
     (case template_Parse E s of
        Inl err \<Rightarrow> Inl (FailedToParseTemplate err)
      | Inr tmpl \<Rightarrow>
          (case template_Execute E tmpl [''title'' \<mapsto> Title msg, ''message'' \<mapsto> Message msg] of
             Inl err \<Rightarrow> Inl (FailedToExecuteTemplate err)
           | Inr buf \<Rightarrow> Inr buf))"

section \<open>Structured Payload Walker\<close>

text \<open>
  \<^verbatim>\<open>processJSONRecursive\<close> mutates the tree in place and returns
  \<^verbatim>\<open>err\<close>; the model returns the tree as the call leaves it together with
  \<^verbatim>\<open>err\<close>. \<open>range_items\<close> is the inner loop over an array, with the
  variable \<^verbatim>\<open>err\<close> as its state: every string or mapping item assigns it anew,
  and it is only tested after the loop. A failed \<^verbatim>\<open>processTemplateString\<close> returns
  the empty string, which the assignment stores in the tree.
\<close>

function processJSONRecursive ::
    "('t, 'n) env \<Rightarrow> (string \<times> 'n json) list \<Rightarrow> MessageExternal
       \<Rightarrow> (string \<times> 'n json) list \<times> error option"
  and range_items ::
    "('t, 'n) env \<Rightarrow> 'n json list \<Rightarrow> MessageExternal \<Rightarrow> error option
       \<Rightarrow> 'n json list \<times> error option"
where
  "processJSONRecursive E [] msg = ([], None)"
| "processJSONRecursive E ((k, v) # m) msg =
     (case v of
        JString vv \<Rightarrow>
          (case processTemplateString E vv msg of
             Inl e \<Rightarrow> ((k, JString []) # m, Some e)
           | Inr r \<Rightarrow>
               (case processJSONRecursive E m msg of
                  (m', err) \<Rightarrow> ((k, JString r) # m', err)))
      | JObject vv \<Rightarrow>
          (case processJSONRecursive E vv msg of
             (vv', Some e) \<Rightarrow> ((k, JObject vv') # m, Some e)
           | (vv', None) \<Rightarrow>
               (case processJSONRecursive E m msg of
                  (m', err) \<Rightarrow> ((k, JObject vv') # m', err)))
      | JArray vv \<Rightarrow>
          (case range_items E vv msg None of
             (vv', Some e) \<Rightarrow> ((k, JArray vv') # m, Some e)
           | (vv', None) \<Rightarrow>
               (case processJSONRecursive E m msg of
                  (m', err) \<Rightarrow> ((k, JArray vv') # m', err)))
      | _ \<Rightarrow>
          (case processJSONRecursive E m msg of
             (m', err) \<Rightarrow> ((k, v) # m', err)))"
| "range_items E [] msg err = ([], err)"
| "range_items E (item # items) msg err =
     (case item of
        JString itemString \<Rightarrow>
          (case processTemplateString E itemString msg of
             Inl e \<Rightarrow>
               (case range_items E items msg (Some e) of
                  (items', err') \<Rightarrow> (JString [] # items', err'))
           | Inr r \<Rightarrow>
               (case range_items E items msg None of
                  (items', err') \<Rightarrow> (JString r # items', err')))
      | JObject itemMap \<Rightarrow>
          (case processJSONRecursive E itemMap msg of
             (itemMap', e) \<Rightarrow>
               (case range_items E items msg e of
                  (items', err') \<Rightarrow> (JObject itemMap' # items', err')))
      | _ \<Rightarrow>
          (case range_items E items msg err of
             (items', err') \<Rightarrow> (item # items', err')))"
  by pat_completeness auto
termination
  by (relation "measure (\<lambda>x. case x of
         Inl (E, m, msg) \<Rightarrow> size_list (size_prod (\<lambda>_. 0) size) m
       | Inr (E, items, msg, err) \<Rightarrow> size_list size items)")
     auto

text \<open>A tree with the content of every string erased: what is left is the structure, the keys
  and the non-string leaves.\<close>

fun shape :: "'n json \<Rightarrow> 'n json" where
  "shape (JString s) = JString []"
| "shape (JArray items) = JArray (map shape items)"
| "shape (JObject m) = JObject (map (\<lambda>(k, v). (k, shape v)) m)"
| "shape v = v"

section \<open>Payload Builder\<close>

text \<open>
  \<^verbatim>\<open>json.Unmarshal([]byte(body), &jsonBody)\<close> with
  \<^verbatim>\<open>var jsonBody map[string]interface{}\<close>: the decoder is directed by the type of
  its target. An object fills the map, \<^verbatim>\<open>null\<close> leaves the map nil
  (\<open>Inr None\<close>), and any other document, although well-formed, is refused with an
  \<^verbatim>\<open>UnmarshalTypeError\<close>.
\<close>

definition unmarshalBody ::
  "('t, 'n) env \<Rightarrow> string \<Rightarrow> string + (string \<times> 'n json) list option" where
  "unmarshalBody E body =
     (case json_Unmarshal E body of
        None \<Rightarrow> Inl ''invalid character''
      | Some (JObject m) \<Rightarrow> Inr (Some m)
      | Some JNull \<Rightarrow> Inr None
      | Some _ \<Rightarrow> Inl ''cannot unmarshal into Go value of type map[string]interface {}'')"

definition isJSON :: "('t, 'n) env \<Rightarrow> string \<Rightarrow> bool" where
  "isJSON E body = (case unmarshalBody E body of Inl err \<Rightarrow> False | Inr jsonBody \<Rightarrow> True)"

definition marshalBody :: "('t, 'n) env \<Rightarrow> 'n json \<Rightarrow> error + string" where
  "marshalBody E jsonBody =
     (case json_Marshal E jsonBody of
        Inl err \<Rightarrow> Inl (FailedToMarshalBody err)
      | Inr newBody \<Rightarrow> Inr newBody)"

text \<open>
  \<^verbatim>\<open>processWebhookBody\<close>. Over a nil map the loop of
  \<^verbatim>\<open>processJSONRecursive\<close> has nothing to visit, and the nil map is marshalled as
  \<^verbatim>\<open>null\<close>.
\<close>

definition processWebhookBody ::
  "('t, 'n) env \<Rightarrow> string \<Rightarrow> MessageExternal \<Rightarrow> error + string" where
  "processWebhookBody E body msg =
     (case unmarshalBody E body of
        Inr jsonBody \<Rightarrow>
          (case jsonBody of
             None \<Rightarrow> marshalBody E JNull
           | Some m \<Rightarrow>
               (case processJSONRecursive E m msg of
                  (m', Some err) \<Rightarrow> Inl (FailedToProcessJSONBody err)
                | (m', None) \<Rightarrow> marshalBody E (JObject m')))
      | Inl _ \<Rightarrow> processTemplateString E body msg)"

section \<open>Delivery Dispatcher\<close>

text \<open>
  A call is a request handed to \<^verbatim>\<open>http.DefaultClient.Do\<close> together with what the
  client returned; it is successful when a response with a status from 200 to 299 came back.
  \<^verbatim>\<open>sendHTTPRequest\<close> returns its error and the calls it made. The request
  carries the context, the method, the URL and the headers of the webhook, and the body.
\<close>

type_synonym call = "Request \<times> (string + int)"

definition successful :: "call \<Rightarrow> bool" where
  "successful c = (case snd c of Inl err \<Rightarrow> False | Inr status \<Rightarrow> 200 \<le> status \<and> status < 300)"

definition newRequest :: "ctx_error option \<Rightarrow> WebHook \<Rightarrow> string \<Rightarrow> Request" where
  "newRequest ctx webhook body =
     \<lparr>req_ctx = ctx, req_method = Method webhook, req_url = Url webhook,
      req_header = Header webhook, req_body = body\<rparr>"

definition sendHTTPRequest ::
  "('t, 'n) env \<Rightarrow> ctx_error option \<Rightarrow> WebHook \<Rightarrow> string \<Rightarrow> error option \<times> call list" where
  "sendHTTPRequest E ctx webhook body =
     (case http_NewRequest E (Method webhook) (Url webhook) of
        Some err \<Rightarrow> (Some (FailedToCreateRequest err), [])
      | None \<Rightarrow>
          (let req = newRequest ctx webhook body in
           case client_Do E req of
             Inl err \<Rightarrow> (Some (FailedToSendRequest err), [(req, Inl err)])
           | Inr status \<Rightarrow>
               if status < 200 \<or> status \<ge> 300
               then (Some (UnexpectedStatusCode status), [(req, Inr status)])
               else (None, [(req, Inr status)])))"

text \<open>The allow-list loop of \<^verbatim>\<open>sendMessage\<close>, leaving at the first match.\<close>

fun appAllowed :: "uint list \<Rightarrow> uint \<Rightarrow> bool" where
  "appAllowed [] app = False"
| "appAllowed (appID # apps) app = (if appID = app then True else appAllowed apps app)"

text \<open>
  The body of the goroutine \<^verbatim>\<open>sendMessage\<close> starts for one webhook: the errors it
  appends to \<^verbatim>\<open>errors\<close> and the calls it makes. \<open>ctx\<close> is
  \<^verbatim>\<open>ctx.Err()\<close>, taken as fixed while one event is dispatched.
\<close>

definition deliver ::
  "('t, 'n) env \<Rightarrow> ctx_error option \<Rightarrow> MessageExternal \<Rightarrow> WebHook \<Rightarrow> error list \<times> call list"
  where
  "deliver E ctx msg webhook =
     (case ctx of
        Some ctxErr \<Rightarrow> ([ContextError ctxErr], [])
      | None \<Rightarrow>
          if length (Apps webhook) > 0 \<and> \<not> appAllowed (Apps webhook) (ApplicationID msg)
          then ([], [])
          else
            (case processWebhookBody E (Body webhook) msg of
               Inl err \<Rightarrow> ([FailedToProcessWebhookBody (Url webhook) err], [])
             | Inr body \<Rightarrow>
                 (case sendHTTPRequest E ctx webhook body of
                    (Some err, calls) \<Rightarrow> ([FailedToSendWebhookRequest (Url webhook) err], calls)
                  | (None, calls) \<Rightarrow> ([], calls))))"

text \<open>
  \<^verbatim>\<open>sendMessage\<close> starts one goroutine per webhook and waits for all of them. The
  goroutines share nothing but the mutex-protected \<^verbatim>\<open>errors\<close> slice, so the order
  in which they append is the only effect of the schedule; the model appends in the order of
  the webhooks, and the theorems below speak of the emptiness, the number and the members of
  \<^verbatim>\<open>errors\<close>, which no schedule changes (\<open>sendMessage_any_order\<close>).
\<close>

fun sendMessage ::
  "('t, 'n) env \<Rightarrow> ctx_error option \<Rightarrow> MessageExternal \<Rightarrow> WebHook list
     \<Rightarrow> error list \<times> call list" where
  "sendMessage E ctx msg [] = ([], [])"
| "sendMessage E ctx msg (webhook # webhooks) =
     (case deliver E ctx msg webhook of
        (errs, calls) \<Rightarrow>
          (case sendMessage E ctx msg webhooks of
             (errs', calls') \<Rightarrow> (errs @ errs', calls @ calls')))"

section \<open>Plugin lifecycle and configuration\<close>

text \<open>
  \<^verbatim>\<open>p.cancel\<close> is nil (\<open>None\<close>) or the \<^verbatim>\<open>CancelFunc\<close> of the
  context made by \<^verbatim>\<open>Enable\<close>; the model keeps with it the \<^verbatim>\<open>Err()\<close>
  of that context. Calling a \<^verbatim>\<open>CancelFunc\<close> cancels a live context and does
  nothing on a finished one; calling a nil function value panics. The handlers
  \<^verbatim>\<open>msgHandler\<close> and \<^verbatim>\<open>storageHandler\<close> are left out.
\<close>

datatype CancelFunc = CancelFunc "ctx_error option"

datatype panic = NilDereference

record MultiNotifierPlugin =
  config :: "Config option"
  cancel :: "CancelFunc option"

fun invoke :: "CancelFunc option \<Rightarrow> panic + CancelFunc" where
  "invoke None = Inl NilDereference"
| "invoke (Some (CancelFunc None)) = Inr (CancelFunc (Some Canceled))"
| "invoke (Some (CancelFunc (Some err))) = Inr (CancelFunc (Some err))"

definition Disable ::
  "MultiNotifierPlugin \<Rightarrow> panic + error option \<times> MultiNotifierPlugin" where
  "Disable p =
     (if cancel p \<noteq> None
      then (case invoke (cancel p) of
              Inl pn \<Rightarrow> Inl pn
            | Inr c \<Rightarrow> Inr (None, p\<lparr>cancel := Some c\<rparr>))
      else Inr (None, p))"

text \<open>
  \<^verbatim>\<open>ValidateAndSetConfig\<close>. The webhooks are pointers, so the loop writes the defaults
  into the entries of the configuration it was given. \<open>validateWebHooks\<close> is the loop: it
  returns the error, the entries of \<^verbatim>\<open>p.config.WebHooks\<close> as the loop leaves them,
  and \<^verbatim>\<open>validWebhooks\<close>.
\<close>

definition invalidURL :: "('t, 'n) env \<Rightarrow> string \<Rightarrow> bool" where
  "invalidURL E u =
     (case url_Parse E u of
        Inl err \<Rightarrow> True
      | Inr parsedURL \<Rightarrow> Scheme parsedURL = [] \<or> Host parsedURL = [])"

definition setMethod :: "WebHook \<Rightarrow> WebHook" where
  "setMethod webhook = (if Method webhook = [] then webhook\<lparr>Method := ''POST''\<rparr> else webhook)"

definition hasContentType :: "WebHook \<Rightarrow> bool" where
  "hasContentType webhook =
     (case Header webhook of
        None \<Rightarrow> False
      | Some h \<Rightarrow> h ''Content-Type'' \<noteq> None)"

definition setContentType :: "WebHook \<Rightarrow> WebHook" where
  "setContentType webhook =
     (if \<not> hasContentType webhook
      then webhook\<lparr>Header :=
             Some ((case Header webhook of None \<Rightarrow> Map.empty | Some h \<Rightarrow> h)
                     (''Content-Type'' \<mapsto> ''text/plain''))\<rparr>
      else webhook)"

fun validateWebHooks ::
  "('t, 'n) env \<Rightarrow> WebHook list \<Rightarrow> WebHook list
     \<Rightarrow> error option \<times> WebHook list \<times> WebHook list" where
  "validateWebHooks E validWebhooks [] = (None, [], validWebhooks)"
| "validateWebHooks E validWebhooks (webhook # webhooks) =
     (let webhook1 = setMethod webhook in
      if invalidURL E (Url webhook1)
      then (Some (InvalidWebhookURL (Url webhook1)), webhook1 # webhooks, validWebhooks)
      else
        (let webhook2 = setContentType webhook1 in
         case validateWebHooks E (validWebhooks @ [webhook2]) webhooks of
           (err, webhooks', valid') \<Rightarrow> (err, webhook2 # webhooks', valid')))"

definition ValidateAndSetConfig ::
  "('t, 'n) env \<Rightarrow> MultiNotifierPlugin \<Rightarrow> Config \<Rightarrow> error option \<times> MultiNotifierPlugin" where
  "ValidateAndSetConfig E p cfg =
     (case validateWebHooks E [] (WebHooks cfg) of
        (Some err, webhooks', validWebhooks) \<Rightarrow>
          (Some err, p\<lparr>config := Some (cfg\<lparr>WebHooks := webhooks'\<rparr>)\<rparr>)
      | (None, webhooks', validWebhooks) \<Rightarrow>
          (None, p\<lparr>config := Some (cfg\<lparr>WebHooks := validWebhooks\<rparr>)\<rparr>))"

section \<open>Notions the claims speak of\<close>

text \<open>
  A destination is eligible for an event when its allow-list is empty or holds the event's
  application; the delivery of an event to a destination succeeds when the payload is built
  and the request is answered with a status from 200 to 299. \<open>DisableTimes n\<close> calls
  \<^verbatim>\<open>Disable\<close> \<open>n\<close> times in sequence and collects what the calls return.
\<close>

definition eligible :: "MessageExternal \<Rightarrow> WebHook \<Rightarrow> bool" where
  "eligible msg webhook = (Apps webhook = [] \<or> ApplicationID msg \<in> set (Apps webhook))"

definition delivered :: "('t, 'n) env \<Rightarrow> MessageExternal \<Rightarrow> WebHook \<Rightarrow> bool" where
  "delivered E msg webhook =
     (case processWebhookBody E (Body webhook) msg of
        Inl err \<Rightarrow> False
      | Inr body \<Rightarrow> fst (sendHTTPRequest E None webhook body) = None)"

fun DisableTimes ::
  "nat \<Rightarrow> MultiNotifierPlugin \<Rightarrow> panic + error option list \<times> MultiNotifierPlugin" where
  "DisableTimes 0 p = Inr ([], p)"
| "DisableTimes (Suc n) p =
     (case Disable p of
        Inl pn \<Rightarrow> Inl pn
      | Inr (err, p') \<Rightarrow>
          (case DisableTimes n p' of
             Inl pn \<Rightarrow> Inl pn
           | Inr (errs, p'') \<Rightarrow> Inr (err # errs, p'')))"

section \<open>The standard library on a fragment\<close>

text \<open>
  To evaluate the plugin on concrete inputs, \<open>go_env\<close> gives the environment the
  behaviour Go's standard library documents, on a fragment of its inputs:
  \<^item> templates whose actions are a field \<^verbatim>\<open>{{.name}}\<close> or a bare identifier
    \<^verbatim>\<open>{{name}}\<close> that is neither a keyword nor a predefined function, spaces around
    the name allowed;
  \<^item> JSON documents in ASCII without number literals and without the escapes
    \<^verbatim>\<open>\u\<close>, \<^verbatim>\<open>\b\<close> and \<^verbatim>\<open>\f\<close>, and trees whose strings are
    printable ASCII, line feeds, carriage returns and tabs;
  \<^item> URLs over lower-case letters, digits and the characters
    \<^verbatim>\<open>. - / :\<close>, and methods of upper-case letters.
  Outside the fragment \<open>go_env\<close> answers with the error
  \<open>''outside the modelled fragment''\<close> (\<open>None\<close> for a JSON document) and says
  nothing about the library; it is used at concrete inputs of the fragment only. The texts of
  the errors are indicative. The network is a parameter of \<open>go_env\<close>.
\<close>

subsection \<open>text/template\<close>

datatype node = TextNode string | FieldNode string

datatype item = ItemText string | ItemAction string

datatype action = Field string | UndefinedFunction string | Unmodelled

definition isSpace :: "char \<Rightarrow> bool" where
  "isSpace c = (c \<in> set [CHR '' '', CHR 0x09, CHR 0x0D, CHR 0x0A])"

definition isLower :: "char \<Rightarrow> bool" where
  "isLower c = (c \<in> set ''abcdefghijklmnopqrstuvwxyz'')"

definition isUpper :: "char \<Rightarrow> bool" where
  "isUpper c = (c \<in> set ''ABCDEFGHIJKLMNOPQRSTUVWXYZ'')"

definition isLetter :: "char \<Rightarrow> bool" where
  "isLetter c = (isLower c \<or> isUpper c \<or> c = CHR ''_'')"

definition isDigit :: "char \<Rightarrow> bool" where
  "isDigit c = (c \<in> set ''0123456789'')"

definition isAlphaNumeric :: "char \<Rightarrow> bool" where
  "isAlphaNumeric c = (isLetter c \<or> isDigit c)"

text \<open>The lexer: text up to the left delimiter, an action up to the right delimiter; an
  action that is never closed is an error.\<close>

fun lexText :: "string \<Rightarrow> string \<Rightarrow> item list option"
  and lexInsideAction :: "string \<Rightarrow> string \<Rightarrow> item list option" where
  "lexText acc [] = Some [ItemText (rev acc)]"
| "lexText acc [c] = Some [ItemText (rev (c # acc))]"
| "lexText acc (c # d # rest) =
     (if c = CHR ''{'' \<and> d = CHR ''{''
      then map_option (Cons (ItemText (rev acc))) (lexInsideAction [] rest)
      else lexText (c # acc) (d # rest))"
| "lexInsideAction acc [] = None"
| "lexInsideAction acc [c] = None"
| "lexInsideAction acc (c # d # rest) =
     (if c = CHR ''}'' \<and> d = CHR ''}''
      then map_option (Cons (ItemAction (rev acc))) (lexText [] rest)
      else lexInsideAction (c # acc) (d # rest))"

definition trimSpace :: "string \<Rightarrow> string" where
  "trimSpace s = rev (dropWhile isSpace (rev (dropWhile isSpace s)))"

text \<open>The keywords, constants and predefined functions of the template language.\<close>

definition predefined :: "string list" where
  "predefined =
     [''and'', ''call'', ''html'', ''index'', ''slice'', ''js'', ''len'', ''not'', ''or'',
      ''print'', ''printf'', ''println'', ''urlquery'', ''eq'', ''ge'', ''gt'', ''le'', ''lt'',
      ''ne'', ''block'', ''break'', ''continue'', ''define'', ''else'', ''end'', ''if'',
      ''range'', ''nil'', ''template'', ''with'', ''true'', ''false'']"

fun isIdentifier :: "string \<Rightarrow> bool" where
  "isIdentifier [] = False"
| "isIdentifier (c # cs) = (isLetter c \<and> list_all isAlphaNumeric cs)"

definition classify :: "string \<Rightarrow> action" where
  "classify body =
     (case trimSpace body of
        [] \<Rightarrow> Unmodelled
      | c # name \<Rightarrow>
          if c = CHR ''.'' \<and> isIdentifier name then Field name
          else if isIdentifier (c # name) \<and> c # name \<notin> set predefined
            then UndefinedFunction (c # name)
          else Unmodelled)"

text \<open>The parser checks, while it parses, that a bare identifier names a function: the
  first action with an unknown one ends the parse with an error.\<close>

fun parseItems :: "item list \<Rightarrow> string + node list" where
  "parseItems [] = Inr []"
| "parseItems (ItemText t # items) =
     (case parseItems items of
        Inl e \<Rightarrow> Inl e
      | Inr ns \<Rightarrow> Inr (if t = [] then ns else TextNode t # ns))"
| "parseItems (ItemAction body # items) =
     (case classify body of
        Field name \<Rightarrow>
          (case parseItems items of Inl e \<Rightarrow> Inl e | Inr ns \<Rightarrow> Inr (FieldNode name # ns))
      | UndefinedFunction f \<Rightarrow> Inl (''function not defined: '' @ f)
      | Unmodelled \<Rightarrow> Inl ''outside the modelled fragment'')"

definition go_template_Parse :: "string \<Rightarrow> string + node list" where
  "go_template_Parse s =
     (case lexText [] s of None \<Rightarrow> Inl ''unclosed action'' | Some items \<Rightarrow> parseItems items)"

text \<open>Execution against a map: a field prints the entry of its key, and
  \<^verbatim>\<open><no value>\<close> when the map has none.\<close>

fun execNodes :: "node list \<Rightarrow> (string \<rightharpoonup> string) \<Rightarrow> string" where
  "execNodes [] data = []"
| "execNodes (TextNode t # ns) data = t @ execNodes ns data"
| "execNodes (FieldNode f # ns) data =
     (case data f of Some v \<Rightarrow> v | None \<Rightarrow> ''<no value>'') @ execNodes ns data"

definition go_template_Execute :: "node list \<Rightarrow> (string \<rightharpoonup> string) \<Rightarrow> string + string" where
  "go_template_Execute tmpl data = Inr (execNodes tmpl data)"

subsection \<open>encoding/json\<close>

datatype token =
  TLBrace | TRBrace | TLBracket | TRBracket | TColon | TComma
  | TString string | TNull | TTrue | TFalse

definition unescape :: "char \<Rightarrow> char option" where
  "unescape c =
     (if c = CHR 0x22 \<or> c = CHR 0x5C \<or> c = CHR ''/'' then Some c
      else if c = CHR ''n'' then Some (CHR 0x0A)
      else if c = CHR ''r'' then Some (CHR 0x0D)
      else if c = CHR ''t'' then Some (CHR 0x09)
      else None)"

definition printable :: "char \<Rightarrow> bool" where
  "printable c = (32 \<le> (of_char c :: nat) \<and> (of_char c :: nat) < 127)"

fun scan :: "string \<Rightarrow> token list option"
  and scanString :: "string \<Rightarrow> string \<Rightarrow> token list option" where
  "scan [] = Some []"
| "scan (c # cs) =
     (if isSpace c then scan cs
      else if c = CHR ''{'' then map_option (Cons TLBrace) (scan cs)
      else if c = CHR ''}'' then map_option (Cons TRBrace) (scan cs)
      else if c = CHR ''['' then map_option (Cons TLBracket) (scan cs)
      else if c = CHR '']'' then map_option (Cons TRBracket) (scan cs)
      else if c = CHR '':'' then map_option (Cons TColon) (scan cs)
      else if c = CHR '','' then map_option (Cons TComma) (scan cs)
      else if c = CHR 0x22 then scanString [] cs
      else if take 4 (c # cs) = ''null'' then map_option (Cons TNull) (scan (drop 3 cs))
      else if take 4 (c # cs) = ''true'' then map_option (Cons TTrue) (scan (drop 3 cs))
      else if take 5 (c # cs) = ''false'' then map_option (Cons TFalse) (scan (drop 4 cs))
      else None)"
| "scanString acc [] = None"
| "scanString acc [c] =
     (if c = CHR 0x22 then Some [TString (rev acc)] else None)"
| "scanString acc (c # d # cs) =
     (if c = CHR 0x22 then map_option (Cons (TString (rev acc))) (scan (d # cs))
      else if c = CHR 0x5C then
        (case unescape d of None \<Rightarrow> None | Some u \<Rightarrow> scanString (u # acc) cs)
      else if printable c then scanString (c # acc) (d # cs)
      else None)"

text \<open>Recursive descent over the tokens, with a bound on the depth of the calls. A key that
  occurs twice keeps its last value, as an assignment to a Go map does.\<close>

fun parseValue :: "nat \<Rightarrow> token list \<Rightarrow> (int json \<times> token list) option"
  and parseArray :: "nat \<Rightarrow> token list \<Rightarrow> (int json list \<times> token list) option"
  and parseObject ::
    "nat \<Rightarrow> (string \<times> int json) list \<Rightarrow> token list
       \<Rightarrow> ((string \<times> int json) list \<times> token list) option" where
  "parseValue 0 ts = None"
| "parseValue (Suc n) [] = None"
| "parseValue (Suc n) (t # ts) =
     (case t of
        TNull \<Rightarrow> Some (JNull, ts)
      | TTrue \<Rightarrow> Some (JBool True, ts)
      | TFalse \<Rightarrow> Some (JBool False, ts)
      | TString s \<Rightarrow> Some (JString s, ts)
      | TLBracket \<Rightarrow>
          (case ts of
             TRBracket # ts' \<Rightarrow> Some (JArray [], ts')
           | _ \<Rightarrow> map_option (\<lambda>(items, r). (JArray items, r)) (parseArray n ts))
      | TLBrace \<Rightarrow>
          (case ts of
             TRBrace # ts' \<Rightarrow> Some (JObject [], ts')
           | _ \<Rightarrow> map_option (\<lambda>(m, r). (JObject m, r)) (parseObject n [] ts))
      | _ \<Rightarrow> None)"
| "parseArray 0 ts = None"
| "parseArray (Suc n) ts =
     (case parseValue n ts of
        None \<Rightarrow> None
      | Some (v, ts') \<Rightarrow>
          (case ts' of
             TComma # ts'' \<Rightarrow> map_option (\<lambda>(items, r). (v # items, r)) (parseArray n ts'')
           | TRBracket # ts'' \<Rightarrow> Some ([v], ts'')
           | _ \<Rightarrow> None))"
| "parseObject 0 m ts = None"
| "parseObject (Suc n) m ts =
     (case ts of
        TString k # TColon # ts' \<Rightarrow>
          (case parseValue n ts' of
             None \<Rightarrow> None
           | Some (v, ts'') \<Rightarrow>
               (case ts'' of
                  TComma # r \<Rightarrow> parseObject n (AList.update k v m) r
                | TRBrace # r \<Rightarrow> Some (AList.update k v m, r)
                | _ \<Rightarrow> None))
      | _ \<Rightarrow> None)"

definition go_json_Unmarshal :: "string \<Rightarrow> int json option" where
  "go_json_Unmarshal s =
     (case scan s of
        None \<Rightarrow> None
      | Some ts \<Rightarrow>
          (case parseValue (Suc (2 * length ts)) ts of
             Some (v, []) \<Rightarrow> Some v
           | _ \<Rightarrow> None))"

text \<open>\<^verbatim>\<open>json.Marshal\<close>: compact, the keys of a map sorted, and in strings the
  quote, the backslash, the line controls and the HTML characters escaped.\<close>

definition escape :: "char \<Rightarrow> string" where
  "escape c =
     (if c = CHR 0x22 then [CHR 0x5C, CHR 0x22]
      else if c = CHR 0x5C then [CHR 0x5C, CHR 0x5C]
      else if c = CHR 0x0A then [CHR 0x5C, CHR ''n'']
      else if c = CHR 0x0D then [CHR 0x5C, CHR ''r'']
      else if c = CHR 0x09 then [CHR 0x5C, CHR ''t'']
      else if c = CHR ''<'' then CHR 0x5C # ''u003c''
      else if c = CHR ''>'' then CHR 0x5C # ''u003e''
      else if c = CHR ''&'' then CHR 0x5C # ''u0026''
      else [c])"

definition quote :: "string \<Rightarrow> string" where
  "quote s = CHR 0x22 # concat (map escape s) @ [CHR 0x22]"

fun less_string :: "string \<Rightarrow> string \<Rightarrow> bool" where
  "less_string [] [] = False"
| "less_string [] (d # ds) = True"
| "less_string (c # cs) [] = False"
| "less_string (c # cs) (d # ds) =
     ((of_char c :: nat) < of_char d \<or> (c = d \<and> less_string cs ds))"

fun insertKey :: "string \<times> 'a \<Rightarrow> (string \<times> 'a) list \<Rightarrow> (string \<times> 'a) list" where
  "insertKey kv [] = [kv]"
| "insertKey kv (kv' # m) =
     (if less_string (fst kv') (fst kv) then kv' # insertKey kv m else kv # kv' # m)"

definition sortKeys :: "(string \<times> 'a) list \<Rightarrow> (string \<times> 'a) list" where
  "sortKeys m = foldr insertKey m []"

fun commas :: "string list \<Rightarrow> string" where
  "commas [] = []"
| "commas [s] = s"
| "commas (s # t # ss) = s @ CHR '','' # commas (t # ss)"

function showNat :: "nat \<Rightarrow> string" where
  "showNat n =
     (if n < 10 then [char_of (48 + n)] else showNat (n div 10) @ [char_of (48 + n mod 10)])"
  by pat_completeness auto
termination
  by (relation "measure id") auto

definition showInt :: "int \<Rightarrow> string" where
  "showInt i = (if i < 0 then CHR ''-'' # showNat (nat (- i)) else showNat (nat i))"

fun encode :: "int json \<Rightarrow> string" where
  "encode JNull = ''null''"
| "encode (JBool b) = (if b then ''true'' else ''false'')"
| "encode (JNumber n) = showInt n"
| "encode (JString s) = quote s"
| "encode (JArray items) = CHR ''['' # commas (map encode items) @ '']''"
| "encode (JObject m) =
     CHR ''{'' #
       commas (map (\<lambda>(k, s). quote k @ CHR '':'' # s)
                 (sortKeys (map (\<lambda>(k, v). (k, encode v)) m)))
       @ ''}''"

definition go_json_Marshal :: "int json \<Rightarrow> string + string" where
  "go_json_Marshal v = Inr (encode v)"

subsection \<open>net/url and net/http\<close>

definition isUrlChar :: "char \<Rightarrow> bool" where
  "isUrlChar c = (isLower c \<or> isDigit c \<or> c \<in> set ''.-/:'')"

text \<open>\<^verbatim>\<open>getScheme\<close>: the scheme is what stands before the first colon, when that
  is a letter followed by letters, digits, plus, minus and dots; a colon in front is an error
  (\<open>None\<close>).\<close>

fun getScheme :: "string \<Rightarrow> string \<Rightarrow> (string \<times> string) option" where
  "getScheme acc [] = Some ([], rev acc)"
| "getScheme acc (c # cs) =
     (if isLower c then getScheme (c # acc) cs
      else if isDigit c \<or> c = CHR ''-'' \<or> c = CHR ''.''
        then (if acc = [] then Some ([], c # cs) else getScheme (c # acc) cs)
      else if c = CHR '':''
        then (if acc = [] then None else Some (rev acc, cs))
      else Some ([], rev acc @ c # cs))"

text \<open>\<^verbatim>\<open>parseHost\<close>: what follows the last colon of the host must be digits.\<close>

definition parseHost :: "string \<Rightarrow> string + string" where
  "parseHost host =
     (if CHR '':'' \<in> set host
           \<and> \<not> list_all isDigit (rev (takeWhile (\<lambda>c. c \<noteq> CHR '':'') (rev host)))
      then Inl ''invalid port after host''
      else Inr host)"

definition go_url_Parse :: "string \<Rightarrow> string + URL" where
  "go_url_Parse rawURL =
     (if \<not> list_all isUrlChar rawURL then Inl ''outside the modelled fragment''
      else
        (case getScheme [] rawURL of
           None \<Rightarrow> Inl ''missing protocol scheme''
         | Some (scheme, rest) \<Rightarrow>
             if take 1 rest \<noteq> ''/'' then
               (if scheme \<noteq> [] then Inr \<lparr>Scheme = scheme, Host = []\<rparr>
                else if CHR '':'' \<in> set (takeWhile (\<lambda>c. c \<noteq> CHR ''/'') rest)
                  then Inl ''first path segment in URL cannot contain colon''
                else Inr \<lparr>Scheme = [], Host = []\<rparr>)
             else if take 2 rest = ''//'' \<and> (scheme \<noteq> [] \<or> take 3 rest \<noteq> ''///'') then
               (case parseHost (takeWhile (\<lambda>c. c \<noteq> CHR ''/'') (drop 2 rest)) of
                  Inl e \<Rightarrow> Inl e
                | Inr host \<Rightarrow> Inr \<lparr>Scheme = scheme, Host = host\<rparr>)
             else Inr \<lparr>Scheme = scheme, Host = []\<rparr>))"

text \<open>\<^verbatim>\<open>http.NewRequestWithContext\<close> refuses a method that is not a token and a
  URL that does not parse; an empty method stands for \<^verbatim>\<open>GET\<close>.\<close>

definition go_http_NewRequest :: "string \<Rightarrow> string \<Rightarrow> string option" where
  "go_http_NewRequest method rawURL =
     (if \<not> list_all isUpper method then Some ''outside the modelled fragment''
      else (case go_url_Parse rawURL of Inl e \<Rightarrow> Some e | Inr u \<Rightarrow> None))"

definition go_env :: "(Request \<Rightarrow> string + int) \<Rightarrow> (node list, int) env" where
  "go_env net =
     \<lparr>template_Parse = go_template_Parse,
      template_Execute = go_template_Execute,
      json_Unmarshal = go_json_Unmarshal,
      json_Marshal = go_json_Marshal,
      url_Parse = go_url_Parse,
      http_NewRequest = go_http_NewRequest,
      client_Do = net\<rparr>"

section \<open>Example data\<close>

text \<open>
  The inputs of the concrete evaluations below: an event of a given application with title
  \<^verbatim>\<open>T\<close> and message \<^verbatim>\<open>M\<close>; a destination without allow-list, one that
  accepts the applications 1 and 2, one whose URL has neither scheme nor host, and one
  without method and headers; a network in which the first destination answers 500 and every
  other one 200; a plugin that holds an earlier configuration.
\<close>

definition event_from :: "uint \<Rightarrow> MessageExternal" where
  "event_from app = \<lparr>ID = 1, ApplicationID = app, Message = ''M'', Title = ''T'', Priority = 0\<rparr>"

definition hookA :: WebHook where
  "hookA = \<lparr>Url = ''http://a.example/hook'', Method = ''POST'', Body = ''{{.title}}'',
             Header = None, Apps = []\<rparr>"

definition hookB :: WebHook where
  "hookB = \<lparr>Url = ''http://b.example/hook'', Method = ''POST'', Body = ''{{.message}}'',
             Header = None, Apps = [1, 2]\<rparr>"

definition hookC :: WebHook where
  "hookC = \<lparr>Url = ''example.com'', Method = [], Body = ''{{.title}}'', Header = None, Apps = []\<rparr>"

definition hookD :: WebHook where
  "hookD = \<lparr>Url = ''http://d.example:8080/in'', Method = [], Body = [], Header = None, Apps = []\<rparr>"

definition net_a_down :: "Request \<Rightarrow> string + int" where
  "net_a_down req = (if req_url req = ''http://a.example/hook'' then Inr 500 else Inr 200)"

definition plugin0 :: MultiNotifierPlugin where
  "plugin0 =
     \<lparr>config = Some \<lparr>ClientToken = ''old'', HostServer = ''ws://old'', WebHooks = []\<rparr>,
      cancel = None\<rparr>"

definition config_of :: "WebHook list \<Rightarrow> Config" where
  "config_of webhooks = \<lparr>ClientToken = ''new'', HostServer = ''ws://new'', WebHooks = webhooks\<rparr>"

section \<open>The walker: frame and coverage\<close>

lemma walk_shape:
  "processJSONRecursive E m msg = (m', e') \<Longrightarrow>
     map (\<lambda>(k, v). (k, shape v)) m' = map (\<lambda>(k, v). (k, shape v)) m"
  "range_items E items msg err = (items', e'') \<Longrightarrow> map shape items' = map shape items"
proof (induction E m msg and E items msg err arbitrary: m' e' and items' e''
        rule: processJSONRecursive_range_items.induct)
  case (1 E msg)
  then show ?case by simp
next
  case (2 E k v m msg)
  then show ?case
    by (cases v) (auto split: sum.splits prod.splits option.splits)
next
  case (3 E msg err)
  then show ?case by simp
next
  case (4 E item items msg err)
  then show ?case
    by (cases item) (auto split: sum.splits prod.splits option.splits)
qed

text \<open>
  Claim C6. After a successful run of the walker the tree has the shape it had: the same
  keys in the same places, the same arrays, and the same numbers, booleans and nulls; only
  the content of strings may differ.
\<close>

theorem walker_keeps_non_strings:
  "processJSONRecursive E m msg = (m', None) \<Longrightarrow> shape (JObject m') = shape (JObject m)"
  using walk_shape(1)[of E m msg m' None] by simp

theorem walker_keeps_non_strings_witness:
  "processJSONRecursive (go_env (\<lambda>req. Inr 200))
     [(''n'', JNumber 7), (''b'', JBool True), (''z'', JNull), (''s'', JString ''{{.title}}''),
      (''a'', JArray [JNumber 1, JString ''{{.message}}'', JObject [(''k'', JString ''x'')]])]
     \<lparr>ID = 1, ApplicationID = 1, Message = ''M'', Title = ''T'', Priority = 0\<rparr>
   = ([(''n'', JNumber 7), (''b'', JBool True), (''z'', JNull), (''s'', JString ''T''),
       (''a'', JArray [JNumber 1, JString ''M'', JObject [(''k'', JString ''x'')]])], None)
   \<and> shape (JObject [(''n'', JNumber (7::int)), (''b'', JBool True), (''z'', JNull),
         (''s'', JString ''T''),
         (''a'', JArray [JNumber 1, JString ''M'', JObject [(''k'', JString ''x'')]])])
     = shape (JObject [(''n'', JNumber 7), (''b'', JBool True), (''z'', JNull),
         (''s'', JString ''{{.title}}''),
         (''a'', JArray [JNumber 1, JString ''{{.message}}'', JObject [(''k'', JString ''x'')]])])"
proof -
  have run: "processJSONRecursive (go_env (\<lambda>req. Inr 200))
     [(''n'', JNumber 7), (''b'', JBool True), (''z'', JNull), (''s'', JString ''{{.title}}''),
      (''a'', JArray [JNumber 1, JString ''{{.message}}'', JObject [(''k'', JString ''x'')]])]
     \<lparr>ID = 1, ApplicationID = 1, Message = ''M'', Title = ''T'', Priority = 0\<rparr>
   = ([(''n'', JNumber 7), (''b'', JBool True), (''z'', JNull), (''s'', JString ''T''),
       (''a'', JArray [JNumber 1, JString ''M'', JObject [(''k'', JString ''x'')]])], None)"
    by code_simp
  from walker_keeps_non_strings [OF run] run show ?thesis by blast
qed

text \<open>
  Claim C3. The walker is to render every reachable string leaf, at any depth, and to fail
  with the first error of the renderer. The code does neither on these two trees: a string in
  an array that is itself an item of an array is never rendered, since the loop over an array
  looks at strings and mappings only; and the error of an item is lost when a later string or
  mapping item of the same array is processed, since that assigns \<^verbatim>\<open>err\<close> again
  before it is tested: the walker then reports success and leaves the empty string in place of
  the template that failed.
\<close>

theorem walker_misses_leaves_and_errors:
  "processJSONRecursive (go_env net) [(''a'', JArray [JArray [JString ''{{.title}}'']])] msg
     = ([(''a'', JArray [JArray [JString ''{{.title}}'']])], None)
   \<and> processTemplateString (go_env net) ''{{'' msg = Inl (FailedToParseTemplate ''unclosed action'')
   \<and> processJSONRecursive (go_env net) [(''a'', JArray [JString ''{{'', JString ''ok''])] msg
     = ([(''a'', JArray [JString [], JString ''ok''])], None)"
  by code_simp

section \<open>The renderer on the template of P3\<close>

text \<open>
  Claim C5, as amended. The placeholders of the template language are fields of the data,
  written with a dot: \<^verbatim>\<open>{{.title}} - {{.message}}\<close> renders to the title, the
  separator and the message, for every event. The template of the claim,
  \<^verbatim>\<open>{{title}} - {{message}}\<close>, calls a function \<^verbatim>\<open>title\<close> that no
  one has defined, and fails to parse.
\<close>

theorem renderer_needs_dotted_fields:
  "processTemplateString (go_env net) ''{{.title}} - {{.message}}'' msg
     = Inr (Title msg @ '' - '' @ Message msg)
   \<and> processTemplateString (go_env net) ''{{title}} - {{message}}'' msg
     = Inl (FailedToParseTemplate ''function not defined: title'')"
proof -
  have dotted: "go_template_Parse ''{{.title}} - {{.message}}''
      = Inr [FieldNode ''title'', TextNode '' - '', FieldNode ''message'']"
    by code_simp
  have bare: "go_template_Parse ''{{title}} - {{message}}'' = Inl ''function not defined: title''"
    by code_simp
  show ?thesis
    by (simp add: processTemplateString_def go_env_def dotted bare go_template_Execute_def)
qed

theorem renderer_needs_dotted_fields_witness:
  "processTemplateString (go_env (\<lambda>req. Inr 200)) ''{{.title}} - {{.message}}''
     \<lparr>ID = 1, ApplicationID = 1, Message = ''M'', Title = ''T'', Priority = 0\<rparr>
   = Inr ''T - M''"
  using renderer_needs_dotted_fields
    [of "\<lambda>req. Inr 200" "\<lparr>ID = 1, ApplicationID = 1, Message = ''M'', Title = ''T'', Priority = 0\<rparr>"]
  by simp

theorem renderer_bare_names_counterexample:
  "processTemplateString (go_env (\<lambda>req. Inr 200)) ''{{title}} - {{message}}''
     \<lparr>ID = 1, ApplicationID = 1, Message = ''M'', Title = ''T'', Priority = 0\<rparr>
   \<noteq> Inr ''T - M''"
  by code_simp

section \<open>The payload builder\<close>

text \<open>
  Claim C4, as amended. The builder decodes the raw template string into a Go map, which
  succeeds for a JSON object and for \<^verbatim>\<open>null\<close> only. For an object it runs the walker
  and returns the tree re-serialised, or the walker's error; for \<^verbatim>\<open>null\<close> it
  returns the nil map re-serialised; for every other string, also a well-formed array or
  scalar document, it returns what the renderer makes of the string as plain text. The choice
  is a function of the raw string alone: \<open>isJSON\<close> does not see the event.
\<close>

theorem payload_builder_dispatch:
  "processWebhookBody E body msg =
     (case json_Unmarshal E body of
        Some (JObject m) \<Rightarrow>
          (case processJSONRecursive E m msg of
             (m', Some err) \<Rightarrow> Inl (FailedToProcessJSONBody err)
           | (m', None) \<Rightarrow> marshalBody E (JObject m'))
      | Some JNull \<Rightarrow> marshalBody E JNull
      | _ \<Rightarrow> processTemplateString E body msg)
   \<and> isJSON E body =
     (case json_Unmarshal E body of
        Some (JObject m) \<Rightarrow> True
      | Some JNull \<Rightarrow> True
      | _ \<Rightarrow> False)"
  by (simp add: processWebhookBody_def isJSON_def unmarshalBody_def
           split: option.splits json.splits)

theorem payload_builder_dispatch_witness:
  \<open>processWebhookBody (go_env (\<lambda>req. Inr 200))
     ''{"title": "{{.title}}", "content": ["{{.message}}"]}''
     \<lparr>ID = 1, ApplicationID = 1, Message = ''{"k":"v"}'', Title = ''JC'', Priority = 0\<rparr>
   = marshalBody (go_env (\<lambda>req. Inr 200))
       (JObject [(''title'', JString ''JC''), (''content'', JArray [JString ''{"k":"v"}''])])
   \<and> marshalBody (go_env (\<lambda>req. Inr 200))
       (JObject [(''title'', JString ''JC''), (''content'', JArray [JString ''{"k":"v"}''])])
     = Inr (''{"content":["{'' @ [CHR 0x5C] @ ''"k'' @ [CHR 0x5C] @ ''":'' @ [CHR 0x5C] @ ''"v''
            @ [CHR 0x5C] @ ''"}"],"title":"JC"}'')
   \<and> processWebhookBody (go_env (\<lambda>req. Inr 200)) ''{{.title}} - {{.message}}''
       \<lparr>ID = 1, ApplicationID = 1, Message = ''M'', Title = ''T'', Priority = 0\<rparr>
     = Inr ''T - M''\<close>
proof -
  have parsed: \<open>json_Unmarshal (go_env (\<lambda>req. Inr 200))
      ''{"title": "{{.title}}", "content": ["{{.message}}"]}''
    = Some (JObject [(''title'', JString ''{{.title}}''),
                     (''content'', JArray [JString ''{{.message}}''])])\<close>
    by code_simp
  have walked: \<open>processJSONRecursive (go_env (\<lambda>req. Inr 200))
      [(''title'', JString ''{{.title}}''), (''content'', JArray [JString ''{{.message}}''])]
      \<lparr>ID = 1, ApplicationID = 1, Message = ''{"k":"v"}'', Title = ''JC'', Priority = 0\<rparr>
    = ([(''title'', JString ''JC''), (''content'', JArray [JString ''{"k":"v"}''])], None)\<close>
    by code_simp
  have plain: "json_Unmarshal (go_env (\<lambda>req. Inr 200)) ''{{.title}} - {{.message}}'' = None"
    by code_simp
  have rendered: "processTemplateString (go_env (\<lambda>req. Inr 200)) ''{{.title}} - {{.message}}''
       \<lparr>ID = 1, ApplicationID = 1, Message = ''M'', Title = ''T'', Priority = 0\<rparr>
     = Inr ''T - M''"
    by code_simp
  have marshalled: \<open>marshalBody (go_env (\<lambda>req. Inr 200))
       (JObject [(''title'', JString ''JC''), (''content'', JArray [JString ''{"k":"v"}''])])
     = Inr (''{"content":["{'' @ [CHR 0x5C] @ ''"k'' @ [CHR 0x5C] @ ''":'' @ [CHR 0x5C] @ ''"v''
            @ [CHR 0x5C] @ ''"}"],"title":"JC"}'')\<close>
    by code_simp
  have structured: \<open>processWebhookBody (go_env (\<lambda>req. Inr 200))
     ''{"title": "{{.title}}", "content": ["{{.message}}"]}''
     \<lparr>ID = 1, ApplicationID = 1, Message = ''{"k":"v"}'', Title = ''JC'', Priority = 0\<rparr>
   = marshalBody (go_env (\<lambda>req. Inr 200))
       (JObject [(''title'', JString ''JC''), (''content'', JArray [JString ''{"k":"v"}''])])\<close>
    using payload_builder_dispatch [THEN conjunct1, of "go_env (\<lambda>req. Inr 200)"
      \<open>''{"title": "{{.title}}", "content": ["{{.message}}"]}''\<close>
      \<open>\<lparr>ID = 1, ApplicationID = 1, Message = ''{"k":"v"}'', Title = ''JC'', Priority = 0\<rparr>\<close>]
    by (simp only: parsed walked option.case json.case prod.case)
  have plain_text: "processWebhookBody (go_env (\<lambda>req. Inr 200)) ''{{.title}} - {{.message}}''
       \<lparr>ID = 1, ApplicationID = 1, Message = ''M'', Title = ''T'', Priority = 0\<rparr>
     = Inr ''T - M''"
    using payload_builder_dispatch [THEN conjunct1, of "go_env (\<lambda>req. Inr 200)"
      "''{{.title}} - {{.message}}''"
      "\<lparr>ID = 1, ApplicationID = 1, Message = ''M'', Title = ''T'', Priority = 0\<rparr>"]
    by (simp only: plain rendered option.case)
  from structured marshalled plain_text show ?thesis by blast
qed

text \<open>The claim as stated fails on a document that is an array: it parses, and re-serialised
  it would lose its blank, but the builder returns it rendered as plain text.\<close>

theorem payload_builder_array_counterexample:
  "json_Unmarshal (go_env (\<lambda>req. Inr 200)) ''[ ]'' = Some (JArray [])
   \<and> json_Marshal (go_env (\<lambda>req. Inr 200)) (JArray []) = Inr ''[]''
   \<and> processWebhookBody (go_env (\<lambda>req. Inr 200)) ''[ ]''
       \<lparr>ID = 1, ApplicationID = 1, Message = ''M'', Title = ''T'', Priority = 0\<rparr>
     = Inr ''[ ]''
   \<and> \<not> isJSON (go_env (\<lambda>req. Inr 200)) ''[ ]''"
  by code_simp

section \<open>The dispatcher\<close>

lemma appAllowed_member: "appAllowed apps app = (app \<in> set apps)"
  by (induction apps) auto

lemma deliver_skip:
  "\<not> eligible msg webhook \<Longrightarrow> deliver E None msg webhook = ([], [])"
  by (auto simp: deliver_def eligible_def appAllowed_member)

lemma deliver_attempt:
  "eligible msg webhook \<Longrightarrow>
   deliver E None msg webhook =
     (case processWebhookBody E (Body webhook) msg of
        Inl err \<Rightarrow> ([FailedToProcessWebhookBody (Url webhook) err], [])
      | Inr body \<Rightarrow>
          (case sendHTTPRequest E None webhook body of
             (Some err, calls) \<Rightarrow> ([FailedToSendWebhookRequest (Url webhook) err], calls)
           | (None, calls) \<Rightarrow> ([], calls)))"
  by (auto simp: deliver_def eligible_def appAllowed_member)

lemma deliver_no_call_when_filtered:
  "\<not> eligible msg webhook \<Longrightarrow> snd (deliver E ctx msg webhook) = []"
  by (cases ctx) (auto simp: deliver_def eligible_def appAllowed_member)

lemma deliver_errors_empty_iff:
  "fst (deliver E None msg webhook) = [] \<longleftrightarrow> (\<not> eligible msg webhook \<or> delivered E msg webhook)"
  by (cases "eligible msg webhook")
     (auto simp: deliver_skip deliver_attempt delivered_def split: sum.splits prod.splits option.splits)

lemma deliver_one_error:
  "length (fst (deliver E None msg webhook)) =
     (if eligible msg webhook \<and> \<not> delivered E msg webhook then 1 else 0)"
  by (cases "eligible msg webhook")
     (auto simp: deliver_skip deliver_attempt delivered_def split: sum.splits prod.splits option.splits)

lemma sendMessage_concat:
  "sendMessage E ctx msg webhooks =
     (concat (map (\<lambda>w. fst (deliver E ctx msg w)) webhooks),
      concat (map (\<lambda>w. snd (deliver E ctx msg w)) webhooks))"
  by (induction webhooks) (auto split: prod.splits)

lemma mset_concat_map:
  "mset (concat (map f ws)) = (\<Sum>w\<in>#mset ws. mset (f w))"
  by (induction ws) simp_all

text \<open>Whatever the order in which the goroutines run, the same errors are returned and the
  same calls are made.\<close>

lemma sendMessage_any_order:
  "mset webhooks' = mset webhooks \<Longrightarrow>
     mset (fst (sendMessage E ctx msg webhooks')) = mset (fst (sendMessage E ctx msg webhooks))
     \<and> mset (snd (sendMessage E ctx msg webhooks')) = mset (snd (sendMessage E ctx msg webhooks))"
  by (simp add: sendMessage_concat mset_concat_map)

lemma sendMessage_errors_empty_iff:
  "fst (sendMessage E None msg webhooks) = [] \<longleftrightarrow>
     list_all (delivered E msg) (filter (eligible msg) webhooks)"
  by (induction webhooks) (auto simp: sendMessage_concat deliver_errors_empty_iff)

lemma sendMessage_error_count:
  "length (fst (sendMessage E None msg webhooks)) =
     length (filter (\<lambda>w. eligible msg w \<and> \<not> delivered E msg w) webhooks)"
  by (induction webhooks) (auto simp: sendMessage_concat deliver_one_error)

lemma sendHTTPRequest_ok_iff:
  "fst (sendHTTPRequest E ctx webhook body) = None \<longleftrightarrow>
     (http_NewRequest E (Method webhook) (Url webhook) = None \<and>
      (\<exists>status. client_Do E (newRequest ctx webhook body) = Inr status \<and>
                 200 \<le> status \<and> status < 300))"
  by (auto simp: sendHTTPRequest_def Let_def split: option.splits sum.splits)

lemma deliver_build_failure:
  "eligible msg webhook \<Longrightarrow> processWebhookBody E (Body webhook) msg = Inl err \<Longrightarrow>
     deliver E None msg webhook = ([FailedToProcessWebhookBody (Url webhook) err], [])"
  by (simp add: deliver_attempt)

lemma deliver_send_failure:
  "eligible msg webhook \<Longrightarrow> processWebhookBody E (Body webhook) msg = Inr body \<Longrightarrow>
   fst (sendHTTPRequest E None webhook body) = Some err \<Longrightarrow>
     fst (deliver E None msg webhook) = [FailedToSendWebhookRequest (Url webhook) err]"
  by (auto simp: deliver_attempt split: prod.splits)

lemma deliver_cancelled: "deliver E (Some ctxErr) msg webhook = ([ContextError ctxErr], [])"
  by (simp add: deliver_def)

text \<open>
  Claim C1, as amended. While the governing context is not cancelled, the errors
  \<^verbatim>\<open>sendMessage\<close> returns are empty exactly when the delivery to every eligible
  destination succeeded, and there is one error for each eligible destination whose delivery
  did not; what the call returns is put together from what each destination's goroutine
  does on its own, so no failure keeps another delivery from being attempted; a payload that
  cannot be built and a request that fails each give one error tagged with the URL of the
  destination; and a request succeeds exactly when it can be created and is answered with a
  status from 200 to 299.
\<close>

theorem dispatch_errors_live_context:
  "(fst (sendMessage E None msg webhooks) = [] \<longleftrightarrow>
      list_all (delivered E msg) (filter (eligible msg) webhooks))
   \<and> length (fst (sendMessage E None msg webhooks)) =
       length (filter (\<lambda>w. eligible msg w \<and> \<not> delivered E msg w) webhooks)
   \<and> sendMessage E None msg webhooks =
       (concat (map (\<lambda>w. fst (deliver E None msg w)) webhooks),
        concat (map (\<lambda>w. snd (deliver E None msg w)) webhooks))
   \<and> (eligible msg webhook \<longrightarrow> processWebhookBody E (Body webhook) msg = Inl err \<longrightarrow>
        deliver E None msg webhook = ([FailedToProcessWebhookBody (Url webhook) err], []))
   \<and> (eligible msg webhook \<longrightarrow> processWebhookBody E (Body webhook) msg = Inr body \<longrightarrow>
        fst (sendHTTPRequest E None webhook body) = Some err \<longrightarrow>
        fst (deliver E None msg webhook) = [FailedToSendWebhookRequest (Url webhook) err])
   \<and> (fst (sendHTTPRequest E ctx webhook body) = None \<longleftrightarrow>
        (http_NewRequest E (Method webhook) (Url webhook) = None \<and>
         (\<exists>status. client_Do E (newRequest ctx webhook body) = Inr status \<and>
                    200 \<le> status \<and> status < 300)))"
  using sendMessage_errors_empty_iff [of E msg webhooks] sendMessage_error_count [of E msg webhooks]
    sendMessage_concat [of E None msg webhooks] deliver_build_failure [of msg webhook E err]
    deliver_send_failure [of msg webhook E body err] sendHTTPRequest_ok_iff [of E ctx webhook body]
  by blast

theorem dispatch_errors_live_context_witness:
  "eligible (event_from 1) hookA
   \<and> processWebhookBody (go_env net_a_down) (Body hookA) (event_from 1) = Inr ''T''
   \<and> fst (sendHTTPRequest (go_env net_a_down) None hookA ''T'') = Some (UnexpectedStatusCode 500)
   \<and> fst (deliver (go_env net_a_down) None (event_from 1) hookA)
       = [FailedToSendWebhookRequest (Url hookA) (UnexpectedStatusCode 500)]
   \<and> fst (sendMessage (go_env net_a_down) None (event_from 1) [hookA, hookB])
       = [FailedToSendWebhookRequest ''http://a.example/hook'' (UnexpectedStatusCode 500)]
   \<and> map (\<lambda>c. (req_url (fst c), req_body (fst c), snd c))
         (snd (sendMessage (go_env net_a_down) None (event_from 1) [hookA, hookB]))
       = [(''http://a.example/hook'', ''T'', Inr 500), (''http://b.example/hook'', ''M'', Inr 200)]
   \<and> length (filter (\<lambda>w. eligible (event_from 1) w \<and> \<not> delivered (go_env net_a_down) (event_from 1) w)
         [hookA, hookB]) = 1"
proof -
  have el: "eligible (event_from 1) hookA"
    by (simp add: eligible_def hookA_def)
  have built: "processWebhookBody (go_env net_a_down) (Body hookA) (event_from 1) = Inr ''T''"
    by code_simp
  have sent: "fst (sendHTTPRequest (go_env net_a_down) None hookA ''T'') = Some (UnexpectedStatusCode 500)"
    by code_simp
  have errs: "fst (sendMessage (go_env net_a_down) None (event_from 1) [hookA, hookB])
       = [FailedToSendWebhookRequest ''http://a.example/hook'' (UnexpectedStatusCode 500)]"
    by code_simp
  have calls: "map (\<lambda>c. (req_url (fst c), req_body (fst c), snd c))
         (snd (sendMessage (go_env net_a_down) None (event_from 1) [hookA, hookB]))
       = [(''http://a.example/hook'', ''T'', Inr 500), (''http://b.example/hook'', ''M'', Inr 200)]"
    by code_simp
  note inst = dispatch_errors_live_context
    [where E = "go_env net_a_down" and msg = "event_from 1" and webhooks = "[hookA, hookB]"
       and webhook = hookA and body = "''T''" and err = "UnexpectedStatusCode 500"
       and ctx = None]
  have tagged: "fst (deliver (go_env net_a_down) None (event_from 1) hookA)
       = [FailedToSendWebhookRequest (Url hookA) (UnexpectedStatusCode 500)]"
    by (rule inst [THEN conjunct2, THEN conjunct2, THEN conjunct2, THEN conjunct2,
          THEN conjunct1, rule_format, OF el built sent])
  have eq: "length (fst (sendMessage (go_env net_a_down) None (event_from 1) [hookA, hookB]))
      = length (filter (\<lambda>w. eligible (event_from 1) w
                  \<and> \<not> delivered (go_env net_a_down) (event_from 1) w) [hookA, hookB])"
    by (rule inst [THEN conjunct2, THEN conjunct1])
  have one: "length (fst (sendMessage (go_env net_a_down) None (event_from 1) [hookA, hookB])) = 1"
    by (subst errs) simp
  have count: "length (filter (\<lambda>w. eligible (event_from 1) w
                  \<and> \<not> delivered (go_env net_a_down) (event_from 1) w) [hookA, hookB]) = 1"
    by (rule trans [OF eq [symmetric] one])
  from el built sent tagged errs calls count show ?thesis by blast
qed

text \<open>The claim as stated fails under a cancelled context: every goroutine, before it looks
  at the allow-list, appends the error of the context, which carries no URL. Here no
  destination is eligible, and yet an error is returned.\<close>

theorem dispatch_errors_cancelled_counterexample:
  "filter (eligible (event_from 3)) [hookB] = []
   \<and> fst (sendMessage (go_env net_a_down) (Some Canceled) (event_from 3) [hookB])
       = [ContextError Canceled]"
  by (simp add: eligible_def hookB_def event_from_def deliver_def)

text \<open>
  Claim C2, as amended. While the governing context is not cancelled, a destination whose
  allow-list is not empty and does not hold the event's application makes no call and records
  no error; it makes no call under any context. A destination with an empty allow-list is
  not filtered: its payload is built and, when that succeeds, its request is sent.
\<close>

theorem allow_list_filter_live_context:
  "(Apps webhook \<noteq> [] \<longrightarrow> ApplicationID msg \<notin> set (Apps webhook) \<longrightarrow>
      deliver E None msg webhook = ([], []))
   \<and> (Apps webhook \<noteq> [] \<longrightarrow> ApplicationID msg \<notin> set (Apps webhook) \<longrightarrow>
      snd (deliver E ctx msg webhook) = [])
   \<and> (Apps webhook = [] \<longrightarrow>
      deliver E None msg webhook =
        (case processWebhookBody E (Body webhook) msg of
           Inl err \<Rightarrow> ([FailedToProcessWebhookBody (Url webhook) err], [])
         | Inr body \<Rightarrow>
             (case sendHTTPRequest E None webhook body of
                (Some err, calls) \<Rightarrow> ([FailedToSendWebhookRequest (Url webhook) err], calls)
              | (None, calls) \<Rightarrow> ([], calls))))"
  using deliver_skip [of msg webhook E] deliver_no_call_when_filtered [of msg webhook E ctx]
    deliver_attempt [of msg webhook E]
  by (simp add: eligible_def)

theorem allow_list_filter_live_context_witness:
  "Apps hookB \<noteq> [] \<and> ApplicationID (event_from 3) \<notin> set (Apps hookB)
   \<and> deliver (go_env net_a_down) None (event_from 3) hookB = ([], [])
   \<and> snd (deliver (go_env net_a_down) (Some Canceled) (event_from 3) hookB) = []
   \<and> Apps hookA = []
   \<and> map (\<lambda>c. (req_url (fst c), req_body (fst c), snd c))
        (snd (deliver (go_env net_a_down) None (event_from 3) hookA))
      = [(''http://a.example/hook'', ''T'', Inr 500)]"
proof -
  have nonempty: "Apps hookB \<noteq> []" by (simp add: hookB_def)
  have absent: "ApplicationID (event_from 3) \<notin> set (Apps hookB)"
    by (simp add: hookB_def event_from_def)
  have empty: "Apps hookA = []" by (simp add: hookA_def)
  note inst = allow_list_filter_live_context
    [where E = "go_env net_a_down" and msg = "event_from 3" and webhook = hookB
       and ctx = "Some Canceled"]
  have skipped: "deliver (go_env net_a_down) None (event_from 3) hookB = ([], [])"
    by (rule inst [THEN conjunct1, rule_format, OF nonempty absent])
  have no_call: "snd (deliver (go_env net_a_down) (Some Canceled) (event_from 3) hookB) = []"
    by (rule inst [THEN conjunct2, THEN conjunct1, rule_format, OF nonempty absent])
  have built: "processWebhookBody (go_env net_a_down) (Body hookA) (event_from 3) = Inr ''T''"
    by code_simp
  have sent: "map (\<lambda>c. (req_url (fst c), req_body (fst c), snd c))
        (snd (sendHTTPRequest (go_env net_a_down) None hookA ''T''))
      = [(''http://a.example/hook'', ''T'', Inr 500)]"
    by code_simp
  have attempted: "map (\<lambda>c. (req_url (fst c), req_body (fst c), snd c))
        (snd (deliver (go_env net_a_down) None (event_from 3) hookA))
      = [(''http://a.example/hook'', ''T'', Inr 500)]"
    using allow_list_filter_live_context
      [where E = "go_env net_a_down" and msg = "event_from 3" and webhook = hookA,
       THEN conjunct2, THEN conjunct2, rule_format, OF empty] sent
    by (simp add: built split: prod.splits option.splits)
  show ?thesis by (simp only: nonempty absent skipped no_call empty attempted simp_thms)
qed

text \<open>The claim as stated fails under a cancelled context: the filtered destination
  records the error of the context, and for the destination without allow-list nothing is
  attempted.\<close>

theorem allow_list_filter_cancelled_counterexample:
  "Apps hookB \<noteq> [] \<and> ApplicationID (event_from 3) \<notin> set (Apps hookB)
   \<and> fst (deliver (go_env net_a_down) (Some Canceled) (event_from 3) hookB)
       = [ContextError Canceled]
   \<and> Apps hookA = []
   \<and> fst (deliver (go_env net_a_down) (Some Canceled) (event_from 3) hookA)
       = [ContextError Canceled]
   \<and> snd (deliver (go_env net_a_down) (Some Canceled) (event_from 3) hookA) = []"
  by (simp add: hookA_def hookB_def event_from_def deliver_def)

text \<open>
  Claim C8, as amended. Under a context that is already cancelled
  \<^verbatim>\<open>sendMessage\<close> returns the error of the context once for every configured
  destination, hence at least one error when there is a destination, and makes no call at
  all.
\<close>

theorem dispatch_cancelled_context:
  "sendMessage E (Some ctxErr) msg webhooks = (map (\<lambda>w. ContextError ctxErr) webhooks, [])
   \<and> (webhooks \<noteq> [] \<longrightarrow> fst (sendMessage E (Some ctxErr) msg webhooks) \<noteq> [])
   \<and> filter successful (snd (sendMessage E (Some ctxErr) msg webhooks)) = []"
proof -
  have "sendMessage E (Some ctxErr) msg webhooks = (map (\<lambda>w. ContextError ctxErr) webhooks, [])"
    by (induction webhooks) (simp_all add: deliver_cancelled)
  then show ?thesis by simp
qed

theorem dispatch_cancelled_context_witness:
  "[hookA, hookB] \<noteq> []
   \<and> fst (sendMessage (go_env net_a_down) (Some Canceled) (event_from 1) [hookA, hookB])
       = [ContextError Canceled, ContextError Canceled]
   \<and> fst (sendMessage (go_env net_a_down) (Some Canceled) (event_from 1) [hookA, hookB]) \<noteq> []
   \<and> filter successful
        (snd (sendMessage (go_env net_a_down) (Some Canceled) (event_from 1) [hookA, hookB])) = []"
proof -
  have ne: "[hookA, hookB] \<noteq> []" by simp
  note inst = dispatch_cancelled_context
    [where E = "go_env net_a_down" and ctxErr = Canceled and msg = "event_from 1"
       and webhooks = "[hookA, hookB]"]
  have errs: "fst (sendMessage (go_env net_a_down) (Some Canceled) (event_from 1) [hookA, hookB])
       = [ContextError Canceled, ContextError Canceled]"
    using inst [THEN conjunct1] by simp
  have some: "fst (sendMessage (go_env net_a_down) (Some Canceled) (event_from 1) [hookA, hookB]) \<noteq> []"
    by (rule inst [THEN conjunct2, THEN conjunct1, rule_format, OF ne])
  have none: "filter successful
        (snd (sendMessage (go_env net_a_down) (Some Canceled) (event_from 1) [hookA, hookB])) = []"
    by (rule inst [THEN conjunct2, THEN conjunct2])
  from ne errs some none show ?thesis by (intro conjI)
qed

text \<open>The claim as stated fails when no destination is configured: no goroutine runs and no
  error is returned.\<close>

theorem dispatch_cancelled_no_destination_counterexample:
  "fst (sendMessage (go_env net_a_down) (Some Canceled) (event_from 1) []) = []"
  by simp

section \<open>Disable\<close>

lemma Disable_once:
  "Disable p = Inr (None, p\<lparr>cancel := map_option (\<lambda>f. case f of
       CancelFunc None \<Rightarrow> CancelFunc (Some Canceled) | CancelFunc (Some e) \<Rightarrow> CancelFunc (Some e))
     (cancel p)\<rparr>)"
proof (cases "cancel p")
  case None
  then show ?thesis by (simp add: Disable_def)
next
  case (Some f)
  obtain st where f: "f = CancelFunc st" by (cases f)
  show ?thesis using Some f by (cases st) (simp_all add: Disable_def)
qed

lemma Disable_twice:
  "Disable p = Inr (err, p') \<Longrightarrow> Disable p' = Inr (None, p')"
proof (cases "cancel p")
  case None
  assume "Disable p = Inr (err, p')"
  with None show ?thesis by (simp add: Disable_def)
next
  case (Some f)
  assume d: "Disable p = Inr (err, p')"
  obtain st where f: "f = CancelFunc st" by (cases f)
  show ?thesis using Some f d by (cases st) (auto simp: Disable_def)
qed

lemma Disable_fixed:
  "Disable p = Inr (None, p) \<Longrightarrow> DisableTimes n p = Inr (replicate n None, p)"
  by (induction n) auto

text \<open>
  Claim C9. \<^verbatim>\<open>Disable\<close> never panics and returns no error, whatever the state of the
  plugin, also when \<^verbatim>\<open>cancel\<close> was never set, in which case it changes nothing;
  after the first call every further call returns no error either and leaves the state as
  it is, so any number of calls in sequence return no error.
\<close>

theorem Disable_idempotent:
  "(case Disable p of
      Inl pn \<Rightarrow> False
    | Inr (err, p') \<Rightarrow>
        err = None \<and> Disable p' = Inr (None, p')
        \<and> DisableTimes (Suc n) p = Inr (replicate (Suc n) None, p')
        \<and> (cancel p = None \<longrightarrow> p' = p))"
proof -
  obtain p' where once: "Disable p = Inr (None, p')"
    using Disable_once [of p] by simp
  have again: "Disable p' = Inr (None, p')"
    by (rule Disable_twice [OF once])
  have many: "DisableTimes (Suc n) p = Inr (replicate (Suc n) None, p')"
    using once Disable_fixed [OF again, of n] by simp
  have same: "cancel p = None \<longrightarrow> p' = p"
    using once by (auto simp: Disable_def)
  show ?thesis
    using same by (simp add: once again many del: DisableTimes.simps replicate.simps)
qed

theorem Disable_idempotent_witness:
  "Disable \<lparr>config = None, cancel = None\<rparr> = Inr (None, \<lparr>config = None, cancel = None\<rparr>)
   \<and> DisableTimes (Suc 2) \<lparr>config = None, cancel = None\<rparr>
     = Inr ([None, None, None], \<lparr>config = None, cancel = None\<rparr>)
   \<and> Disable \<lparr>config = None, cancel = Some (CancelFunc None)\<rparr>
     = Inr (None, \<lparr>config = None, cancel = Some (CancelFunc (Some Canceled))\<rparr>)
   \<and> DisableTimes (Suc 1) \<lparr>config = None, cancel = Some (CancelFunc None)\<rparr>
     = Inr ([None, None], \<lparr>config = None, cancel = Some (CancelFunc (Some Canceled))\<rparr>)"
proof -
  have a: "Disable \<lparr>config = None, cancel = None\<rparr> = Inr (None, \<lparr>config = None, cancel = None\<rparr>)"
    by (simp add: Disable_def)
  have b: "DisableTimes (Suc 2) \<lparr>config = None, cancel = None\<rparr>
     = Inr ([None, None, None], \<lparr>config = None, cancel = None\<rparr>)"
    using Disable_idempotent [where p = "\<lparr>config = None, cancel = None\<rparr>" and n = 2]
    by (simp add: a numeral_2_eq_2)
  have c: "Disable \<lparr>config = None, cancel = Some (CancelFunc None)\<rparr>
     = Inr (None, \<lparr>config = None, cancel = Some (CancelFunc (Some Canceled))\<rparr>)"
    by (simp add: Disable_def)
  have d: "DisableTimes (Suc 1) \<lparr>config = None, cancel = Some (CancelFunc None)\<rparr>
     = Inr ([None, None], \<lparr>config = None, cancel = Some (CancelFunc (Some Canceled))\<rparr>)"
    using Disable_idempotent [where p = "\<lparr>config = None, cancel = Some (CancelFunc None)\<rparr>" and n = 1]
    by (simp add: c)
  show ?thesis by (simp only: a b c d simp_thms)
qed

section \<open>Configuration validation\<close>

lemma Url_setMethod: "Url (setMethod w) = Url w"
  by (simp add: setMethod_def)

lemma validate_all_valid:
  "list_all (\<lambda>w. \<not> invalidURL E (Url w)) ws \<Longrightarrow>
     validateWebHooks E acc ws =
       (None, map (setContentType \<circ> setMethod) ws, acc @ map (setContentType \<circ> setMethod) ws)"
  by (induction ws arbitrary: acc) (simp_all add: Let_def Url_setMethod)

lemma validate_first_invalid:
  "list_all (\<lambda>w. \<not> invalidURL E (Url w)) pre \<Longrightarrow> invalidURL E (Url bad) \<Longrightarrow>
     validateWebHooks E acc (pre @ bad # post) =
       (Some (InvalidWebhookURL (Url bad)),
        map (setContentType \<circ> setMethod) pre @ setMethod bad # post,
        acc @ map (setContentType \<circ> setMethod) pre)"
  by (induction pre arbitrary: acc) (simp_all add: Let_def Url_setMethod)

lemma first_invalid:
  "list_ex P ws \<Longrightarrow> \<exists>pre bad post. ws = pre @ bad # post \<and> list_all (\<lambda>w. \<not> P w) pre \<and> P bad"
proof -
  assume "list_ex P ws"
  then have "\<exists>x\<in>set ws. P x" by (simp add: list_ex_iff)
  then obtain pre bad post where "ws = pre @ bad # post" "P bad" "\<forall>y\<in>set pre. \<not> P y"
    using split_list_first_prop [of ws P] by blast
  then show ?thesis by (auto simp: list_all_iff)
qed

lemma validate_rejects:
  "WebHooks cfg = pre @ bad # post \<Longrightarrow> list_all (\<lambda>w. \<not> invalidURL E (Url w)) pre \<Longrightarrow>
   invalidURL E (Url bad) \<Longrightarrow>
     ValidateAndSetConfig E p cfg =
       (Some (InvalidWebhookURL (Url bad)),
        p\<lparr>config := Some (cfg\<lparr>WebHooks :=
             map (setContentType \<circ> setMethod) pre @ setMethod bad # post\<rparr>)\<rparr>)"
  by (simp add: ValidateAndSetConfig_def validate_first_invalid)

lemma validate_accepts:
  "\<not> list_ex (\<lambda>w. invalidURL E (Url w)) (WebHooks cfg) \<Longrightarrow>
     ValidateAndSetConfig E p cfg =
       (None, p\<lparr>config := Some (cfg\<lparr>WebHooks :=
                 map (setContentType \<circ> setMethod) (WebHooks cfg)\<rparr>)\<rparr>)"
proof -
  assume "\<not> list_ex (\<lambda>w. invalidURL E (Url w)) (WebHooks cfg)"
  then have "list_all (\<lambda>w. \<not> invalidURL E (Url w)) (WebHooks cfg)"
    by (simp add: list_ex_iff list_all_iff)
  then show ?thesis
    by (simp add: ValidateAndSetConfig_def validate_all_valid)
qed

lemma validate_fails:
  "list_ex (\<lambda>w. invalidURL E (Url w)) (WebHooks cfg) \<Longrightarrow>
     \<exists>u. fst (ValidateAndSetConfig E p cfg) = Some (InvalidWebhookURL u)"
proof -
  assume "list_ex (\<lambda>w. invalidURL E (Url w)) (WebHooks cfg)"
  then obtain pre bad post where "WebHooks cfg = pre @ bad # post"
    "list_all (\<lambda>w. \<not> invalidURL E (Url w)) pre" "invalidURL E (Url bad)"
    using first_invalid [of "\<lambda>w. invalidURL E (Url w)" "WebHooks cfg"] by auto
  then show ?thesis
    using validate_rejects [of cfg pre bad post E p] by simp
qed

lemma defaults_method:
  "Method (setContentType (setMethod w)) = (if Method w = [] then ''POST'' else Method w)"
  by (simp add: setContentType_def setMethod_def)

lemma defaults_header_missing:
  "\<not> hasContentType w \<Longrightarrow>
     \<exists>h. Header (setContentType (setMethod w)) = Some h \<and> h ''Content-Type'' = Some ''text/plain''"
  by (simp add: setContentType_def setMethod_def hasContentType_def)

lemma defaults_header_present:
  "hasContentType w \<Longrightarrow> Header (setContentType (setMethod w)) = Header w"
  by (simp add: setContentType_def setMethod_def hasContentType_def)

lemma defaults_rest:
  "Url (setContentType (setMethod w)) = Url w \<and> Body (setContentType (setMethod w)) = Body w
   \<and> Apps (setContentType (setMethod w)) = Apps w"
  by (simp add: setContentType_def setMethod_def)

text \<open>
  Claim C7. \<^verbatim>\<open>ValidateAndSetConfig\<close> returns an error as soon as one destination
  has a URL that does not parse or parses without a scheme or without a host. Otherwise it
  returns no error and stores the configuration with the defaults written into every
  destination: a missing method becomes \<^verbatim>\<open>POST\<close>, a header set without
  \<^verbatim>\<open>Content-Type\<close> gets the entry \<^verbatim>\<open>text/plain\<close>, a header set that has
  one is kept, and URL, body and allow-list are kept.
\<close>

theorem validation_rejects_and_defaults:
  "(list_ex (\<lambda>w. invalidURL E (Url w)) (WebHooks cfg) \<longrightarrow>
      (\<exists>u. fst (ValidateAndSetConfig E p cfg) = Some (InvalidWebhookURL u)))
   \<and> (\<not> list_ex (\<lambda>w. invalidURL E (Url w)) (WebHooks cfg) \<longrightarrow>
      ValidateAndSetConfig E p cfg =
        (None, p\<lparr>config := Some (cfg\<lparr>WebHooks :=
                  map (setContentType \<circ> setMethod) (WebHooks cfg)\<rparr>)\<rparr>))
   \<and> invalidURL E u =
       (case url_Parse E u of
          Inl err \<Rightarrow> True
        | Inr parsedURL \<Rightarrow> Scheme parsedURL = [] \<or> Host parsedURL = [])
   \<and> Method (setContentType (setMethod w)) = (if Method w = [] then ''POST'' else Method w)
   \<and> (\<not> hasContentType w \<longrightarrow>
        (\<exists>h. Header (setContentType (setMethod w)) = Some h
              \<and> h ''Content-Type'' = Some ''text/plain''))
   \<and> (hasContentType w \<longrightarrow> Header (setContentType (setMethod w)) = Header w)
   \<and> Url (setContentType (setMethod w)) = Url w
   \<and> Body (setContentType (setMethod w)) = Body w
   \<and> Apps (setContentType (setMethod w)) = Apps w"
  using validate_fails [of E cfg p] validate_accepts [of E cfg p] defaults_method [of w]
    defaults_header_missing [of w] defaults_header_present [of w] defaults_rest [of w]
  by (simp add: invalidURL_def)

theorem validation_rejects_and_defaults_witness:
  "list_ex (\<lambda>w. invalidURL (go_env net_a_down) (Url w)) (WebHooks (config_of [hookD, hookC]))
   \<and> (\<exists>u. fst (ValidateAndSetConfig (go_env net_a_down) plugin0 (config_of [hookD, hookC]))
           = Some (InvalidWebhookURL u))
   \<and> \<not> list_ex (\<lambda>w. invalidURL (go_env net_a_down) (Url w)) (WebHooks (config_of [hookD]))
   \<and> ValidateAndSetConfig (go_env net_a_down) plugin0 (config_of [hookD])
       = (None, plugin0\<lparr>config := Some ((config_of [hookD])\<lparr>WebHooks :=
             map (setContentType \<circ> setMethod) (WebHooks (config_of [hookD]))\<rparr>)\<rparr>)
   \<and> Method (setContentType (setMethod hookD)) = ''POST''
   \<and> \<not> hasContentType hookD
   \<and> (\<exists>h. Header (setContentType (setMethod hookD)) = Some h
           \<and> h ''Content-Type'' = Some ''text/plain'')"
proof -
  have d: "\<not> invalidURL (go_env net_a_down) ''http://d.example:8080/in''" by code_simp
  have c: "invalidURL (go_env net_a_down) ''example.com''" by code_simp
  have bad: "list_ex (\<lambda>w. invalidURL (go_env net_a_down) (Url w))
               (WebHooks (config_of [hookD, hookC]))"
    by (simp add: config_of_def hookC_def hookD_def c d)
  have good: "\<not> list_ex (\<lambda>w. invalidURL (go_env net_a_down) (Url w))
               (WebHooks (config_of [hookD]))"
    by (simp add: config_of_def hookD_def d)
  have nohdr: "\<not> hasContentType hookD" by (simp add: hasContentType_def hookD_def)
  note rejected = validation_rejects_and_defaults
    [where E = "go_env net_a_down" and cfg = "config_of [hookD, hookC]" and p = plugin0,
     THEN conjunct1, rule_format, OF bad]
  note inst = validation_rejects_and_defaults
    [where E = "go_env net_a_down" and cfg = "config_of [hookD]" and p = plugin0
       and w = hookD]
  note accepted = inst [THEN conjunct2, THEN conjunct1, rule_format, OF good]
  have meth: "Method (setContentType (setMethod hookD)) = ''POST''"
    using inst [THEN conjunct2, THEN conjunct2, THEN conjunct2, THEN conjunct1]
    by (simp add: hookD_def)
  note hdr = inst [THEN conjunct2, THEN conjunct2, THEN conjunct2, THEN conjunct2,
      THEN conjunct1, rule_format, OF nohdr]
  show ?thesis
    by (intro conjI bad rejected good accepted meth nohdr hdr)
qed

text \<open>
  Claim C10. When a destination has an invalid URL, \<^verbatim>\<open>ValidateAndSetConfig\<close>
  returns the error of the first such destination, and the plugin then holds the new
  configuration, not the one it held before: the destinations before the invalid one carry
  both defaults, the invalid one carries the default method, and those after it are as they
  were given.
\<close>

theorem validation_failure_keeps_new_config:
  "(WebHooks cfg = pre @ bad # post \<longrightarrow> list_all (\<lambda>w. \<not> invalidURL E (Url w)) pre \<longrightarrow>
    invalidURL E (Url bad) \<longrightarrow>
      ValidateAndSetConfig E p cfg =
        (Some (InvalidWebhookURL (Url bad)),
         p\<lparr>config := Some (cfg\<lparr>WebHooks :=
              map (setContentType \<circ> setMethod) pre @ setMethod bad # post\<rparr>)\<rparr>))
   \<and> (list_ex (\<lambda>w. invalidURL E (Url w)) (WebHooks cfg) \<longrightarrow>
        (\<exists>pre bad post. WebHooks cfg = pre @ bad # post
           \<and> list_all (\<lambda>w. \<not> invalidURL E (Url w)) pre \<and> invalidURL E (Url bad)))
   \<and> Method (setMethod w) = (if Method w = [] then ''POST'' else Method w)"
  using validate_rejects [of cfg pre bad post E p]
    first_invalid [of "\<lambda>w. invalidURL E (Url w)" "WebHooks cfg"]
  by (simp add: setMethod_def)

theorem validation_failure_keeps_new_config_witness:
  "WebHooks (config_of [hookD, hookC, hookD]) = [hookD] @ hookC # [hookD]
   \<and> list_all (\<lambda>w. \<not> invalidURL (go_env net_a_down) (Url w)) [hookD]
   \<and> invalidURL (go_env net_a_down) (Url hookC)
   \<and> ValidateAndSetConfig (go_env net_a_down) plugin0 (config_of [hookD, hookC, hookD])
       = (Some (InvalidWebhookURL (Url hookC)),
          plugin0\<lparr>config := Some ((config_of [hookD, hookC, hookD])\<lparr>WebHooks :=
              map (setContentType \<circ> setMethod) [hookD] @ setMethod hookC # [hookD]\<rparr>)\<rparr>)
   \<and> map_option HostServer (config plugin0) = Some ''ws://old''
   \<and> map_option HostServer
        (config (snd (ValidateAndSetConfig (go_env net_a_down) plugin0
                        (config_of [hookD, hookC, hookD])))) = Some ''ws://new''
   \<and> map_option (map Method \<circ> WebHooks)
        (config (snd (ValidateAndSetConfig (go_env net_a_down) plugin0
                        (config_of [hookD, hookC, hookD])))) = Some [''POST'', ''POST'', []]
   \<and> map Method [hookD, hookC, hookD] = [[], [], []]"
proof -
  have d: "\<not> invalidURL (go_env net_a_down) ''http://d.example:8080/in''" by code_simp
  have c: "invalidURL (go_env net_a_down) ''example.com''" by code_simp
  have split: "WebHooks (config_of [hookD, hookC, hookD]) = [hookD] @ hookC # [hookD]"
    by (simp add: config_of_def)
  have pre: "list_all (\<lambda>w. \<not> invalidURL (go_env net_a_down) (Url w)) [hookD]"
    by (simp add: hookD_def d)
  have bad: "invalidURL (go_env net_a_down) (Url hookC)"
    by (simp add: hookC_def c)
  note result = validation_failure_keeps_new_config
    [where E = "go_env net_a_down" and cfg = "config_of [hookD, hookC, hookD]"
       and pre = "[hookD]" and bad = hookC and post = "[hookD]" and p = plugin0,
     THEN conjunct1, rule_format, OF split pre bad]
  have old: "map_option HostServer (config plugin0) = Some ''ws://old''"
    by (simp add: plugin0_def)
  have new: "map_option HostServer
        (config (snd (ValidateAndSetConfig (go_env net_a_down) plugin0
                        (config_of [hookD, hookC, hookD])))) = Some ''ws://new''"
    by (subst result) (simp add: config_of_def)
  have methods: "map_option (map Method \<circ> WebHooks)
        (config (snd (ValidateAndSetConfig (go_env net_a_down) plugin0
                        (config_of [hookD, hookC, hookD])))) = Some [''POST'', ''POST'', []]"
    by (subst result)
       (simp add: config_of_def setMethod_def setContentType_def hookA_def hookC_def hookD_def)
  have before: "map Method [hookD, hookC, hookD] = [[], [], []]"
    by (simp add: hookA_def hookC_def hookD_def)
  show ?thesis
    by (intro conjI split pre bad result old new methods before)
qed

end
